theory Spec2Isabelle
  imports Complex_Main "HOL-Library.Char_ord" "HOL-Library.List_Lexorder"
begin

section \<open>Arbiter: execution pricing, payoffs, market comparison, discrepancies\<close>

text \<open>
  The analytics core of Arbiter is written in TypeScript. Every quantity is a JavaScript
  \<open>number\<close>. The embedding reads a \<open>number\<close> as an exact \<^typ>\<open>real\<close>: the arithmetic of
  the source is kept operation by operation, and rounding of IEEE doubles, \<open>NaN\<close> and
  the infinities are not modelled. Where the source would produce an infinity
  (\<open>Math.min()\<close> of no arguments) the model has an explicit branch.
  Integer-valued locals (the bounds of the binary search) are \<^typ>\<open>int\<close>.
  Field names are those of the source; a prefix is added where two types share a field
  name or the name is taken by HOL (\<open>size\<close>).

  Embedded are the execution price engine (\<open>calculateExecutionPrice\<close>,
  \<open>getExecutionPrice\<close>, \<open>analyzeOrderBook\<close>), the payoff calculator (\<open>calculatePayoff\<close>,
  \<open>calculateKellyFraction\<close>), the arbitrage analyzer (\<open>compareMarkets\<close> and what it
  calls) and the discrepancy engine (\<open>detectDiscrepancies\<close> and what it calls).
\<close>

subsection \<open>Order books, trade inputs, execution results (execution-types.ts)\<close>

datatype TradeSide = BUY | SELL

datatype Outcome = YES | NO

record OrderBookLevel =
  price :: real
  level_size :: real

record OrderBook =
  bids :: "OrderBookLevel list"
  asks :: "OrderBookLevel list"
  timestamp :: int
  tokenId :: string
  marketId :: string


record TradeInput =
  ti_side :: TradeSide
  ti_outcome :: Outcome
  ti_size :: real

record Fill =
  fill_price :: real
  fill_size :: real
  cumulative :: real

record ExecutionResult =
  side :: TradeSide
  outcome :: Outcome
  requestedSize :: real
  filledSize :: real
  averagePrice :: real
  totalCost :: real
  bestPrice :: real
  worstPrice :: real
  slippageFromBest :: real
  slippagePercent :: real
  fills :: "Fill list"
  partialFill :: bool
  remainingSize :: real

subsection \<open>The execution price engine\<close>

text \<open>\<open>createEmptyResult\<close>: the result when the consumed side has no level.\<close>

definition createEmptyResult :: "TradeInput \<Rightarrow> ExecutionResult" where
  "createEmptyResult input =
     \<lparr> side = ti_side input,
       outcome = ti_outcome input,
       requestedSize = ti_size input,
       filledSize = 0,
       averagePrice = 0,
       totalCost = 0,
       bestPrice = 0,
       worstPrice = 0,
       slippageFromBest = 0,
       slippagePercent = 0,
       fills = [],
       partialFill = True,
       remainingSize = ti_size input \<rparr>"

text \<open>
  The mutable locals of the \<open>for (const level of levels)\<close> loop of
  \<open>calculateExecutionPrice\<close>, the body of \<open>if (fillAtLevel > 0)\<close> (\<open>applyFill\<close>) and
  the loop itself. \<open>break\<close> returns the state as it is; \<open>fills.push\<close> appends at the end.
\<close>

record WalkState =
  ws_remainingSize :: real
  ws_totalCost :: real
  ws_filledSize :: real
  ws_worstPrice :: real
  ws_fills :: "Fill list"

definition applyFill :: "OrderBookLevel \<Rightarrow> real \<Rightarrow> WalkState \<Rightarrow> WalkState" where
  "applyFill level fillAtLevel s =
     (let costAtLevel = fillAtLevel * price level;
          filled = ws_filledSize s + fillAtLevel
      in \<lparr> ws_remainingSize = ws_remainingSize s - fillAtLevel,
           ws_totalCost = ws_totalCost s + costAtLevel,
           ws_filledSize = filled,
           ws_worstPrice = price level,
           ws_fills = ws_fills s @
             [\<lparr> fill_price = price level, fill_size = fillAtLevel, cumulative = filled \<rparr>] \<rparr>)"

fun walkLevels :: "OrderBookLevel list \<Rightarrow> WalkState \<Rightarrow> WalkState" where
  "walkLevels [] s = s"
| "walkLevels (level # rest) s =
     (if ws_remainingSize s \<le> 0 then s
      else
        (let fillAtLevel = min (ws_remainingSize s) (level_size level) in
         if fillAtLevel > 0 then walkLevels rest (applyFill level fillAtLevel s)
         else walkLevels rest s))"

definition selectLevels :: "OrderBook \<Rightarrow> TradeSide \<Rightarrow> OrderBookLevel list" where
  "selectLevels orderBook sd = (if sd = BUY then asks orderBook else bids orderBook)"

definition initialWalk :: "real \<Rightarrow> real \<Rightarrow> WalkState" where
  "initialWalk sz best =
     \<lparr> ws_remainingSize = sz, ws_totalCost = 0, ws_filledSize = 0,
       ws_worstPrice = best, ws_fills = [] \<rparr>"

definition calculateExecutionPrice :: "OrderBook \<Rightarrow> TradeInput \<Rightarrow> ExecutionResult" where
  "calculateExecutionPrice orderBook input =
     (let levels = selectLevels orderBook (ti_side input) in
      if length levels = 0 then createEmptyResult input
      else
        (let best = price (hd levels);
             s = walkLevels levels (initialWalk (ti_size input) best);
             avg = (if ws_filledSize s > 0 then ws_totalCost s / ws_filledSize s else 0);
             slip = (if ti_side input = BUY then avg - best else best - avg);
             slipPct = (if best > 0 then (slip / best) * 100 else 0)
         in \<lparr> side = ti_side input,
              outcome = ti_outcome input,
              requestedSize = ti_size input,
              filledSize = ws_filledSize s,
              averagePrice = avg,
              totalCost = ws_totalCost s,
              bestPrice = best,
              worstPrice = ws_worstPrice s,
              slippageFromBest = slip,
              slippagePercent = slipPct,
              fills = ws_fills s,
              partialFill = (ws_remainingSize s > 0),
              remainingSize = ws_remainingSize s \<rparr>))"

text \<open>\<open>getExecutionPrice\<close>: the convenience wrapper, which always passes outcome YES.\<close>

definition getExecutionPrice :: "OrderBook \<Rightarrow> TradeSide \<Rightarrow> real \<Rightarrow> real" where
  "getExecutionPrice orderBook sd sz =
     averagePrice (calculateExecutionPrice orderBook
       \<lparr> ti_side = sd, ti_outcome = YES, ti_size = sz \<rparr>)"

subsection \<open>The resolution payoff calculator\<close>

record PayoffResult =
  p_side :: TradeSide
  p_outcome :: Outcome
  contracts :: real
  entryPrice :: real
  p_totalCost :: real
  pnlIfYes :: real
  returnIfYes :: real
  pnlIfNo :: real
  returnIfNo :: real
  maxGain :: real
  maxLoss :: real
  capitalAtRisk :: real
  impliedProbability :: real

text \<open>
  \<open>calculateResolutionPnL\<close> returns the object \<open>{pnlIfYes, pnlIfNo}\<close>, here the pair
  in that order. The branches are those of the source: BUY first, then SELL.
\<close>

definition calculateResolutionPnL :: "TradeSide \<Rightarrow> Outcome \<Rightarrow> real \<Rightarrow> real \<Rightarrow> real \<times> real" where
  "calculateResolutionPnL sd oc cnt pr =
     (if sd = BUY then
        (if oc = YES then ((1 - pr) * cnt, - pr * cnt)
         else (- pr * cnt, (1 - pr) * cnt))
      else if oc = YES then ((pr - 1) * cnt, pr * cnt)
      else (pr * cnt, (pr - 1) * cnt))"

definition createZeroPayoff :: "ExecutionResult \<Rightarrow> PayoffResult" where
  "createZeroPayoff execution =
     \<lparr> p_side = side execution,
       p_outcome = outcome execution,
       contracts = 0,
       entryPrice = 0,
       p_totalCost = 0,
       pnlIfYes = 0,
       returnIfYes = 0,
       pnlIfNo = 0,
       returnIfNo = 0,
       maxGain = 0,
       maxLoss = 0,
       capitalAtRisk = 0,
       impliedProbability = 0 \<rparr>"

definition calculatePayoff :: "ExecutionResult \<Rightarrow> PayoffResult" where
  "calculatePayoff execution =
     (if filledSize execution = 0 then createZeroPayoff execution
      else
        (let (pnlYes, pnlNo) =
               calculateResolutionPnL (side execution) (outcome execution)
                 (filledSize execution) (averagePrice execution);
             capitalDeployed = \<bar>totalCost execution\<bar>;
             retYes = (if capitalDeployed > 0 then (pnlYes / capitalDeployed) * 100 else 0);
             retNo = (if capitalDeployed > 0 then (pnlNo / capitalDeployed) * 100 else 0);
             gain = max pnlYes pnlNo;
             loss = min pnlYes pnlNo
         in \<lparr> p_side = side execution,
              p_outcome = outcome execution,
              contracts = filledSize execution,
              entryPrice = averagePrice execution,
              p_totalCost = totalCost execution,
              pnlIfYes = pnlYes,
              returnIfYes = retYes,
              pnlIfNo = pnlNo,
              returnIfNo = retNo,
              maxGain = gain,
              maxLoss = loss,
              capitalAtRisk = \<bar>loss\<bar>,
              impliedProbability = averagePrice execution \<rparr>))"




subsection \<open>Order book analysis\<close>






subsection \<open>The cross-market arbitrage analyzer\<close>


















subsection \<open>The discrepancy engine\<close>

text \<open>
  Strings are ASCII strings: a \<^typ>\<open>char\<close> is a byte, and the engine's slug only keeps
  \<open>a-z\<close>, \<open>0-9\<close> and white space after lower-casing. Dates are milliseconds since the
  epoch. An optional field (\<open>volume?: number\<close>) is an \<^typ>\<open>'a option\<close>.
\<close>

datatype Platform = POLYMARKET | KALSHI | PREDICTIT | METACULUS

record NormalizedMarket =
  externalId :: string
  platform :: Platform
  nm_question :: string
  description :: "string option"
  category :: string
  yesProbability :: real
  noProbability :: real
  volume :: "real option"
  liquidity :: "real option"
  endDate :: "int option"
  lastUpdated :: int

record PriceMovement =
  pm_platform :: Platform
  beforePrice :: real
  afterPrice :: real
  change :: real

record NewsCorrelation =
  title :: string
  source :: string
  url :: string
  publishedAt :: int
  sentiment :: real
  relevanceScore :: real
  priceMovement :: "PriceMovement option"

record MarketQuote =
  mq_platform :: Platform
  mq_yesProbability :: real
  mq_volume :: "real option"
  mq_liquidity :: "real option"

record DiscrepancyResult =
  eventSlug :: string
  eventTitle :: string
  markets :: "MarketQuote list"
  maxSpread :: real
  dr_spreadPercent :: real
  confidence :: real
  likelyDrivers :: "NewsCorrelation list"

record MarketGroup =
  mg_eventSlug :: string
  mg_eventTitle :: string
  mg_markets :: "NormalizedMarket list"

definition MIN_SPREAD_THRESHOLD :: real where
  "MIN_SPREAD_THRESHOLD = 3/100"

definition HIGH_CONFIDENCE_THRESHOLD :: real where
  "HIGH_CONFIDENCE_THRESHOLD = 5/100"

text \<open>\<open>generateSlug\<close>, step by step: \<open>toLowerCase\<close>, \<open>replace(/[^a-z0-9\s]/g, "")\<close>,
  \<open>split(" ")\<close>, \<open>filter((w) => w.length > 3)\<close>, \<open>sort()\<close> (by code unit), \<open>join("-")\<close>,
  \<open>substring(0, 100)\<close>.\<close>

definition toLowerCase :: "string \<Rightarrow> string" where
  "toLowerCase str =
     map (\<lambda>c. let n = (of_char c :: nat) in
               if 65 \<le> n \<and> n \<le> 90 then char_of (n + 32) else c) str"

definition slugChar :: "char \<Rightarrow> bool" where
  "slugChar c =
     (let n = (of_char c :: nat) in
      (97 \<le> n \<and> n \<le> 122) \<or> (48 \<le> n \<and> n \<le> 57) \<or> n = 32 \<or> (9 \<le> n \<and> n \<le> 13))"

fun splitOn :: "char \<Rightarrow> string \<Rightarrow> string list" where
  "splitOn d [] = [[]]"
| "splitOn d (c # cs) =
     (if c = d then [] # splitOn d cs
      else (case splitOn d cs of
              [] \<Rightarrow> [[c]]
            | w # ws \<Rightarrow> (c # w) # ws))"

fun joinWith :: "string \<Rightarrow> string list \<Rightarrow> string" where
  "joinWith sep [] = []"
| "joinWith sep [w] = w"
| "joinWith sep (w # ws) = w @ sep @ joinWith sep ws"

definition generateSlug :: "string \<Rightarrow> string" where
  "generateSlug question =
     take 100
       (joinWith ''-''
         (sort
           (filter (\<lambda>w. length w > 3)
             (splitOn (CHR '' '')
               (filter slugChar (toLowerCase question))))))"

text \<open>
  \<open>groupSimilarMarkets\<close> fills a \<open>Map\<close> keyed by slug, which keeps the order of first
  insertion: here the list of the groups in that order. \<open>addToGroup\<close> is one iteration of
  its loop.
\<close>

fun addToGroup :: "string \<Rightarrow> NormalizedMarket \<Rightarrow> MarketGroup list \<Rightarrow> MarketGroup list" where
  "addToGroup slug market [] =
     [\<lparr> mg_eventSlug = slug, mg_eventTitle = nm_question market, mg_markets = [market] \<rparr>]"
| "addToGroup slug market (g # gs) =
     (if mg_eventSlug g = slug then g\<lparr> mg_markets := mg_markets g @ [market] \<rparr> # gs
      else g # addToGroup slug market gs)"

definition groupSimilarMarkets :: "NormalizedMarket list \<Rightarrow> MarketGroup list" where
  "groupSimilarMarkets ms =
     filter (\<lambda>g. length (mg_markets g) > 1)
       (foldl (\<lambda>groups market. addToGroup (generateSlug (nm_question market)) market groups)
          [] ms)"

definition calculateConfidence :: "NormalizedMarket list \<Rightarrow> real \<Rightarrow> real" where
  "calculateConfidence ms spr =
     (let c0 = (if spr \<ge> HIGH_CONFIDENCE_THRESHOLD then 4/10
                else if spr \<ge> MIN_SPREAD_THRESHOLD then 2/10 else 0);
          liq = (\<lambda>m. case liquidity m of None \<Rightarrow> 0 | Some v \<Rightarrow> v);
          vol = (\<lambda>m. case volume m of None \<Rightarrow> 0 | Some v \<Rightarrow> v);
          marketsWithLiquidity = filter (\<lambda>m. liq m \<noteq> 0 \<and> liq m > 0) ms;
          c1 = (if length marketsWithLiquidity = length ms then
                  (let avgLiquidity = foldl (\<lambda>sum m. sum + liq m) 0 marketsWithLiquidity
                         / real (length marketsWithLiquidity)
                   in c0 + 2/10 + (if avgLiquidity > 100000 then 2/10
                                   else if avgLiquidity > 10000 then 1/10 else 0))
                else c0);
          marketsWithVolume = filter (\<lambda>m. vol m \<noteq> 0 \<and> vol m > 0) ms;
          c2 = (if length marketsWithVolume > 0 then
                  (let avgVolume = foldl (\<lambda>sum m. sum + vol m) 0 marketsWithVolume
                         / real (length marketsWithVolume)
                   in c1 + (if avgVolume > 1000000 then 2/10
                            else if avgVolume > 100000 then 1/10 else 0))
                else c1)
      in min 1 c2)"

text \<open>
  \<open>analyzeGroup\<close>. The news service is a parameter: \<open>searchNews\<close> catches its own
  failures and always returns a list. \<open>Math.min(...[])\<close> is \<open>Infinity\<close> and
  \<open>Math.max(...[])\<close> is \<open>-Infinity\<close>, so a group without markets has a spread below the
  threshold and gives \<open>null\<close>.
\<close>

definition analyzeGroup ::
  "(string \<Rightarrow> NewsCorrelation list) \<Rightarrow> MarketGroup \<Rightarrow> DiscrepancyResult option" where
  "analyzeGroup searchNews grp =
     (case map yesProbability (mg_markets grp) of
        [] \<Rightarrow> None
      | y # ys \<Rightarrow>
          (let minYes = fold min ys y;
               maxYes = fold max ys y;
               spr = maxYes - minYes
           in if spr < MIN_SPREAD_THRESHOLD then None
              else
                (let conf = calculateConfidence (mg_markets grp) spr;
                     news = searchNews (mg_eventTitle grp)
                 in Some
                      \<lparr> eventSlug = mg_eventSlug grp,
                        eventTitle = mg_eventTitle grp,
                        markets = map (\<lambda>m. \<lparr> mq_platform = platform m,
                                               mq_yesProbability = yesProbability m,
                                               mq_volume = volume m,
                                               mq_liquidity = liquidity m \<rparr>)
                                    (mg_markets grp),
                        maxSpread = spr,
                        dr_spreadPercent = (spr / ((maxYes + minYes) / 2)) * 100,
                        confidence = conf,
                        likelyDrivers = take 3 news \<rparr>)))"

text \<open>
  \<open>detectDiscrepancies\<close>: the loop over the groups, then
  \<open>sort((a, b) => b.maxSpread - a.maxSpread)\<close>, a stable sort by descending \<open>maxSpread\<close>.
\<close>

fun collectDiscrepancies ::
  "(string \<Rightarrow> NewsCorrelation list) \<Rightarrow> MarketGroup list \<Rightarrow> DiscrepancyResult list" where
  "collectDiscrepancies searchNews [] = []"
| "collectDiscrepancies searchNews (grp # rest) =
     (if length (mg_markets grp) < 2 then collectDiscrepancies searchNews rest
      else (case analyzeGroup searchNews grp of
              None \<Rightarrow> collectDiscrepancies searchNews rest
            | Some analysis \<Rightarrow>
                if maxSpread analysis \<ge> MIN_SPREAD_THRESHOLD
                then analysis # collectDiscrepancies searchNews rest
                else collectDiscrepancies searchNews rest))"

definition detectDiscrepancies ::
  "(string \<Rightarrow> NewsCorrelation list) \<Rightarrow> NormalizedMarket list \<Rightarrow> DiscrepancyResult list" where
  "detectDiscrepancies searchNews ms =
     sort_key (\<lambda>d. - maxSpread d) (collectDiscrepancies searchNews (groupSimilarMarkets ms))"

subsection \<open>Example inputs\<close>

text \<open>
  Concrete values used to run the functions: a book with the given asks, a
  market with the given YES and NO asks, and an execution result filled with \<open>n\<close>
  contracts at average price \<open>p\<close>.
\<close>

definition bookOfAsks :: "OrderBookLevel list \<Rightarrow> OrderBook" where
  "bookOfAsks ls = \<lparr> bids = [], asks = ls, timestamp = 0, tokenId = ''token'', marketId = ''market'' \<rparr>"

definition lvl :: "real \<Rightarrow> real \<Rightarrow> OrderBookLevel" where
  "lvl p sz = \<lparr> price = p, level_size = sz \<rparr>"







definition quoted :: "Platform \<Rightarrow> string \<Rightarrow> real \<Rightarrow> NormalizedMarket" where
  "quoted pf q y =
     \<lparr> externalId = ''id'', platform = pf, nm_question = q, description = None,
       category = ''Crypto'', yesProbability = y, noProbability = 1 - y, volume = None,
       liquidity = None, endDate = None, lastUpdated = 0 \<rparr>"

definition noNews :: "string \<Rightarrow> NewsCorrelation list" where
  "noNews query = []"

definition exampleMarkets :: "NormalizedMarket list" where
  "exampleMarkets =
     [quoted POLYMARKET ''Rain today'' (2/5), quoted KALSHI ''Snow tonight'' (3/10),
      quoted KALSHI ''rain today?'' (9/20), quoted POLYMARKET ''Snow Tonight'' (2/5),
      quoted KALSHI ''Hail today'' (1/2), quoted POLYMARKET ''Hail today'' (51/100)]"

definition filledAt :: "TradeSide \<Rightarrow> Outcome \<Rightarrow> real \<Rightarrow> real \<Rightarrow> ExecutionResult" where
  "filledAt sd oc n p =
     \<lparr> side = sd, outcome = oc, requestedSize = n, filledSize = n, averagePrice = p,
       totalCost = p * n, bestPrice = p, worstPrice = p, slippageFromBest = 0,
       slippagePercent = 0, fills = [], partialFill = False, remainingSize = 0 \<rparr>"

section \<open>Properties of the execution price engine\<close>

text \<open>
  Claim C3. For every trade input, if the side of the book that
  \<open>calculateExecutionPrice\<close> consumes (asks for BUY, bids for SELL) has no level, the
  function returns an ordinary execution result: filled size, average price, total cost,
  best price, worst price and both slippage figures are 0, there is no fill, the fill is
  partial, and the remaining size is the requested size.
\<close>

theorem empty_side_zero_result:
  assumes "(if ti_side input = BUY then asks orderBook else bids orderBook) = []"
  shows "calculateExecutionPrice orderBook input =
     \<lparr> side = ti_side input, outcome = ti_outcome input,
       requestedSize = ti_size input, filledSize = 0, averagePrice = 0, totalCost = 0,
       bestPrice = 0, worstPrice = 0, slippageFromBest = 0, slippagePercent = 0,
       fills = [], partialFill = True, remainingSize = ti_size input \<rparr>"
  using assms
  by (simp add: calculateExecutionPrice_def selectLevels_def createEmptyResult_def)

theorem empty_side_zero_result_witness:
  "calculateExecutionPrice
     \<lparr> bids = [\<lparr> price = 2/5, level_size = 10 \<rparr>], asks = [], timestamp = 0,
       tokenId = ''t'', marketId = ''m'' \<rparr>
     \<lparr> ti_side = BUY, ti_outcome = NO, ti_size = 7 \<rparr> =
     \<lparr> side = BUY, outcome = NO, requestedSize = 7, filledSize = 0, averagePrice = 0,
       totalCost = 0, bestPrice = 0, worstPrice = 0, slippageFromBest = 0,
       slippagePercent = 0, fills = [], partialFill = True, remainingSize = 7 \<rparr>"
  using empty_side_zero_result
    [of "\<lparr> ti_side = BUY, ti_outcome = NO, ti_size = 7 \<rparr>"
        "\<lparr> bids = [\<lparr> price = 2/5, level_size = 10 \<rparr>], asks = [], timestamp = 0,
           tokenId = ''t'', marketId = ''m'' \<rparr>"]
  by simp

text \<open>
  An invariant of the loop: a property that holds before the loop and that every fill
  (a positive amount, at most the remaining size and at most the level's size) preserves
  holds after it.
\<close>

lemma walkLevels_invariant:
  assumes "P s"
    and "\<And>l f t. l \<in> set ls \<Longrightarrow> P t \<Longrightarrow> 0 < f \<Longrightarrow> f \<le> ws_remainingSize t \<Longrightarrow>
           f \<le> level_size l \<Longrightarrow> P (applyFill l f t)"
  shows "P (walkLevels ls s)"
  using assms
proof (induction ls arbitrary: s)
  case Nil
  then show ?case by simp
next
  case (Cons l ls)
  show ?case
  proof (cases "ws_remainingSize s \<le> 0")
    case True
    with Cons.prems(1) show ?thesis by simp
  next
    case False
    let ?f = "min (ws_remainingSize s) (level_size l)"
    show ?thesis
    proof (cases "0 < ?f")
      case True
      have "P (applyFill l ?f s)"
        using Cons.prems(2) [of l s ?f] Cons.prems(1) True by simp
      then have "P (walkLevels ls (applyFill l ?f s))"
        using Cons.IH [of "applyFill l ?f s"] Cons.prems(2) by simp
      then show ?thesis using False True by (simp add: Let_def)
    next
      case nofill: False
      have "P (walkLevels ls s)"
        using Cons.IH [of s] Cons.prems by simp
      then show ?thesis using False nofill by (simp add: Let_def)
    qed
  qed
qed








lemma walk_cost_lower:
  assumes "\<forall>l \<in> set ls. lo \<le> price l" and "lo * ws_filledSize s \<le> ws_totalCost s"
  shows "lo * ws_filledSize (walkLevels ls s) \<le> ws_totalCost (walkLevels ls s)"
proof (rule walkLevels_invariant)
  show "lo * ws_filledSize s \<le> ws_totalCost s" by (rule assms(2))
next
  fix l :: OrderBookLevel and f :: real and t :: WalkState
  assume l: "l \<in> set ls" and t: "lo * ws_filledSize t \<le> ws_totalCost t" and f: "0 < f"
  from l assms(1) have "lo \<le> price l" by simp
  then have "f * lo \<le> f * price l" using f by (simp add: mult_left_mono)
  then show "lo * ws_filledSize (applyFill l f t) \<le> ws_totalCost (applyFill l f t)"
    using t by (simp add: applyFill_def Let_def algebra_simps)
qed

lemma walk_cost_upper:
  assumes "\<forall>l \<in> set ls. price l \<le> hi" and "ws_totalCost s \<le> hi * ws_filledSize s"
  shows "ws_totalCost (walkLevels ls s) \<le> hi * ws_filledSize (walkLevels ls s)"
proof (rule walkLevels_invariant)
  show "ws_totalCost s \<le> hi * ws_filledSize s" by (rule assms(2))
next
  fix l :: OrderBookLevel and f :: real and t :: WalkState
  assume l: "l \<in> set ls" and t: "ws_totalCost t \<le> hi * ws_filledSize t" and f: "0 < f"
  from l assms(1) have "price l \<le> hi" by simp
  then have "f * price l \<le> f * hi" using f by (simp add: mult_left_mono)
  then show "ws_totalCost (applyFill l f t) \<le> hi * ws_filledSize (applyFill l f t)"
    using t by (simp add: applyFill_def Let_def algebra_simps)
qed




lemma sorted_hd_least:
  assumes "sorted (map price ls)" and "l \<in> set ls"
  shows "price (hd ls) \<le> price l"
  using assms by (cases ls) auto

lemma sorted_desc_hd_greatest:
  assumes "sorted_wrt (\<lambda>a b. price b \<le> price a) ls" and "l \<in> set ls"
  shows "price l \<le> price (hd ls)"
  using assms by (cases ls) auto

lemma initialWalk_simps:
  "ws_remainingSize (initialWalk sz best) = sz"
  "ws_totalCost (initialWalk sz best) = 0"
  "ws_filledSize (initialWalk sz best) = 0"
  "ws_worstPrice (initialWalk sz best) = best"
  "ws_fills (initialWalk sz best) = []"
  by (simp_all add: initialWalk_def)





text \<open>
  Claim C9. The claim: on a book whose consumed side is sorted, \<open>slippageFromBest\<close> is at
  least 0 for every trade input, and so is \<open>slippagePercent\<close> when the best price is
  positive. The code at two inputs where the side is sorted and not empty but nothing is
  filled (a BUY of size \<open>-5\<close> against one ask of 100 at 0.5, and a BUY of size 10 against
  one ask of size 0 at 0.5): the average price is 0 and the slippage is \<open>0 - bestPrice\<close>,
  negative, where \<open>createEmptyResult\<close> reports slippage 0 for a zero fill.
\<close>

theorem slippage_negative_on_zero_fill:
  "slippageFromBest (calculateExecutionPrice (bookOfAsks [lvl (1/2) 100])
      \<lparr> ti_side = BUY, ti_outcome = YES, ti_size = - 5 \<rparr>) = - (1/2)
   \<and> slippagePercent (calculateExecutionPrice (bookOfAsks [lvl (1/2) 100])
      \<lparr> ti_side = BUY, ti_outcome = YES, ti_size = - 5 \<rparr>) = - 100
   \<and> bestPrice (calculateExecutionPrice (bookOfAsks [lvl (1/2) 100])
      \<lparr> ti_side = BUY, ti_outcome = YES, ti_size = - 5 \<rparr>) = 1/2
   \<and> averagePrice (calculateExecutionPrice (bookOfAsks [lvl (1/2) 100])
      \<lparr> ti_side = BUY, ti_outcome = YES, ti_size = - 5 \<rparr>) = 0
   \<and> slippageFromBest (calculateExecutionPrice (bookOfAsks [lvl (1/2) 0])
      \<lparr> ti_side = BUY, ti_outcome = YES, ti_size = 10 \<rparr>) = - (1/2)
   \<and> slippagePercent (calculateExecutionPrice (bookOfAsks [lvl (1/2) 0])
      \<lparr> ti_side = BUY, ti_outcome = YES, ti_size = 10 \<rparr>) = - 100"
  by (simp add: calculateExecutionPrice_def selectLevels_def initialWalk_def applyFill_def
      bookOfAsks_def lvl_def Let_def)

text \<open>
  Whenever something is filled, the slippage is at least 0 on a sorted side: the defect
  is confined to the zero fill of a non-empty side.
\<close>

lemma slippage_nonneg_when_filled:
  assumes "ti_side input = BUY \<Longrightarrow> sorted (map price (asks orderBook))"
    and "ti_side input = SELL \<Longrightarrow> sorted_wrt (\<lambda>a b. price b \<le> price a) (bids orderBook)"
    and "0 < filledSize (calculateExecutionPrice orderBook input)"
  shows "0 \<le> slippageFromBest (calculateExecutionPrice orderBook input)
       \<and> (0 < bestPrice (calculateExecutionPrice orderBook input) \<longrightarrow>
            0 \<le> slippagePercent (calculateExecutionPrice orderBook input))"
proof -
  let ?ls = "selectLevels orderBook (ti_side input)"
  let ?best = "price (hd ?ls)"
  let ?ini = "initialWalk (ti_size input) ?best"
  let ?fin = "walkLevels ?ls ?ini"
  have ne: "?ls \<noteq> []"
    using assms(3) by (auto simp add: calculateExecutionPrice_def createEmptyResult_def)
  then have pos: "0 < ws_filledSize ?fin"
    using assms(3) by (simp add: calculateExecutionPrice_def Let_def)
  have slip: "0 \<le> slippageFromBest (calculateExecutionPrice orderBook input)"
  proof (cases "ti_side input")
    case BUY
    then have ls: "?ls = asks orderBook" by (simp add: selectLevels_def)
    have "?best * ws_filledSize ?fin \<le> ws_totalCost ?fin"
      using walk_cost_lower [of ?ls ?best ?ini] sorted_hd_least [OF assms(1) [OF BUY]] ls
      by (simp add: initialWalk_simps)
    then have "?best \<le> ws_totalCost ?fin / ws_filledSize ?fin"
      using pos by (simp add: pos_le_divide_eq)
    then show ?thesis
      using ne pos BUY by (simp add: calculateExecutionPrice_def Let_def)
  next
    case SELL
    then have ls: "?ls = bids orderBook" by (simp add: selectLevels_def)
    have "ws_totalCost ?fin \<le> ?best * ws_filledSize ?fin"
      using walk_cost_upper [of ?ls ?best ?ini] sorted_desc_hd_greatest [OF assms(2) [OF SELL]] ls
      by (simp add: initialWalk_simps)
    then have "ws_totalCost ?fin / ws_filledSize ?fin \<le> ?best"
      using pos by (simp add: pos_divide_le_eq)
    then show ?thesis
      using ne pos SELL by (simp add: calculateExecutionPrice_def Let_def)
  qed
  have "0 < bestPrice (calculateExecutionPrice orderBook input) \<longrightarrow>
      slippagePercent (calculateExecutionPrice orderBook input) =
        slippageFromBest (calculateExecutionPrice orderBook input)
          / bestPrice (calculateExecutionPrice orderBook input) * 100"
    using ne by (simp add: calculateExecutionPrice_def Let_def)
  then show ?thesis using slip by auto
qed









text \<open>
  Claim C10. The numeric outputs of \<open>calculateExecutionPrice\<close> do not depend on the
  outcome of the input: two runs on the same book whose inputs differ only in the outcome
  give results that differ only in the echoed outcome. In particular the average price is
  the one \<open>getExecutionPrice\<close> computes with outcome YES.
\<close>

theorem outcome_independence:
  "calculateExecutionPrice orderBook (input\<lparr> ti_outcome := o1 \<rparr>) =
     (calculateExecutionPrice orderBook (input\<lparr> ti_outcome := o2 \<rparr>))\<lparr> outcome := o1 \<rparr>
   \<and> averagePrice (calculateExecutionPrice orderBook input) =
     getExecutionPrice orderBook (ti_side input) (ti_size input)"
  by (simp add: calculateExecutionPrice_def getExecutionPrice_def createEmptyResult_def
      Let_def)

section \<open>Properties of the payoff calculator\<close>



text \<open>
  Claim C5. For an execution result with average price in \<open>[0, 1]\<close> and filled size at
  least 0, the payoff result has \<open>maxLoss \<le> 0 \<le> maxGain\<close>, and both bounds are 0 at once
  only for a zero fill (and they are both 0 then).
\<close>

theorem payoff_loss_gain_bounds:
  assumes "0 \<le> averagePrice e" and "averagePrice e \<le> 1" and "0 \<le> filledSize e"
  shows "maxLoss (calculatePayoff e) \<le> 0 \<and> 0 \<le> maxGain (calculatePayoff e) \<and>
     ((maxLoss (calculatePayoff e) = 0 \<and> maxGain (calculatePayoff e) = 0) = (filledSize e = 0))"
proof (cases "filledSize e = 0")
  case True
  then show ?thesis by (simp add: calculatePayoff_def createZeroPayoff_def)
next
  case False
  with assms have n: "0 < filledSize e" by simp
  have a: "0 \<le> (1 - averagePrice e) * filledSize e" using assms by simp
  have b: "0 \<le> averagePrice e * filledSize e" using assms by simp
  have c: "(1 - averagePrice e) * filledSize e + averagePrice e * filledSize e = filledSize e"
    by (simp add: algebra_simps)
  show ?thesis using False n a b c
    by (cases "side e"; cases "outcome e")
       (auto simp add: calculatePayoff_def calculateResolutionPnL_def Let_def max_def min_def
          algebra_simps)
qed

theorem payoff_loss_gain_bounds_witness:
  "maxLoss (calculatePayoff (filledAt BUY YES 100 (2/5))) \<le> 0
   \<and> 0 \<le> maxGain (calculatePayoff (filledAt BUY YES 100 (2/5)))
   \<and> maxLoss (calculatePayoff (filledAt BUY YES 100 (2/5))) = - 40
   \<and> maxGain (calculatePayoff (filledAt BUY YES 100 (2/5))) = 60
   \<and> maxLoss (calculatePayoff (filledAt SELL NO 0 (2/5))) = 0
   \<and> maxGain (calculatePayoff (filledAt SELL NO 0 (2/5))) = 0"
  using payoff_loss_gain_bounds [of "filledAt BUY YES 100 (2/5)"]
    payoff_loss_gain_bounds [of "filledAt SELL NO 0 (2/5)"]
  by (simp add: filledAt_def calculatePayoff_def calculateResolutionPnL_def
      createZeroPayoff_def)




section \<open>Properties of the cross-market analyzer\<close>





















section \<open>Properties of the discrepancy engine\<close>

text \<open>Every market of every group is one of the input markets.\<close>

lemma addToGroup_markets:
  "(\<Union>g \<in> set (addToGroup slug m gs). set (mg_markets g)) =
     insert m (\<Union>g \<in> set gs. set (mg_markets g))"
  by (induction gs) auto

lemma foldl_addToGroup_markets:
  "(\<Union>g \<in> set (foldl (\<lambda>groups market. addToGroup (f market) market groups) gs ms).
       set (mg_markets g)) =
     (\<Union>g \<in> set gs. set (mg_markets g)) \<union> set ms"
proof (induction ms arbitrary: gs)
  case Nil
  then show ?case by simp
next
  case (Cons m ms)
  show ?case
    by (simp add: Cons.IH addToGroup_markets del: UN_simps)
qed

lemma groupSimilarMarkets_sound:
  assumes "g \<in> set (groupSimilarMarkets ms)"
  shows "set (mg_markets g) \<subseteq> set ms \<and> 2 \<le> length (mg_markets g)"
proof -
  let ?all = "foldl (\<lambda>groups market. addToGroup (generateSlug (nm_question market)) market groups) [] ms"
  from assms have g: "g \<in> set ?all" and len: "1 < length (mg_markets g)"
    by (simp_all add: groupSimilarMarkets_def)
  have "(\<Union>g \<in> set ?all. set (mg_markets g)) = set ms"
    using foldl_addToGroup_markets [of "\<lambda>market. generateSlug (nm_question market)" "[]" ms]
    by simp
  with g have "set (mg_markets g) \<subseteq> set ms" by blast
  with len show ?thesis by simp
qed

lemma fold_min_lower:
  fixes y :: real
  shows "(\<forall>x \<in> set (y # ys). lo \<le> x) \<Longrightarrow> lo \<le> fold min ys y"
  by (induction ys arbitrary: y) simp_all

lemma fold_max_upper:
  fixes y :: real
  shows "(\<forall>x \<in> set (y # ys). x \<le> hi) \<Longrightarrow> fold max ys y \<le> hi"
  by (induction ys arbitrary: y) simp_all

lemma analyzeGroup_sound:
  assumes "analyzeGroup searchNews grp = Some d"
    and "\<forall>m \<in> set (mg_markets grp). 0 \<le> yesProbability m \<and> yesProbability m \<le> 1"
  shows "3/100 \<le> maxSpread d \<and> maxSpread d \<le> 1
       \<and> eventSlug d = mg_eventSlug grp
       \<and> map mq_yesProbability (markets d) = map yesProbability (mg_markets grp)"
proof (cases "map yesProbability (mg_markets grp)")
  case Nil
  with assms(1) show ?thesis by (simp add: analyzeGroup_def)
next
  case (Cons y ys)
  have bounds: "\<forall>x \<in> set (y # ys). 0 \<le> x \<and> x \<le> 1"
    using assms(2) Cons [symmetric] by auto
  have lo: "0 \<le> fold min ys y" using fold_min_lower [of y ys 0] bounds by simp
  have hi: "fold max ys y \<le> 1" using fold_max_upper [of y ys 1] bounds by simp
  from assms(1) Cons have "\<not> fold max ys y - fold min ys y < MIN_SPREAD_THRESHOLD"
    by (auto simp add: analyzeGroup_def Let_def split: if_splits)
  with assms(1) Cons lo hi show ?thesis
    by (auto simp add: analyzeGroup_def Let_def MIN_SPREAD_THRESHOLD_def comp_def)
qed

lemma collectDiscrepancies_sound:
  "d \<in> set (collectDiscrepancies searchNews gs) \<Longrightarrow>
   \<exists>g \<in> set gs. analyzeGroup searchNews g = Some d"
  by (induction gs) (auto split: if_splits option.splits)

lemma detectDiscrepancies_sorted:
  "sorted_wrt (\<lambda>a b. maxSpread b \<le> maxSpread a) (detectDiscrepancies searchNews ms)"
proof -
  have "sorted (map (\<lambda>d. - maxSpread d) (detectDiscrepancies searchNews ms))"
    by (simp add: detectDiscrepancies_def)
  then show ?thesis by (simp add: sorted_map)
qed

lemma exampleMarkets_spreads:
  "map maxSpread (detectDiscrepancies noNews exampleMarkets) = [1/10, 1/20]"
  by code_simp

lemma exampleMarkets_sizes:
  "map (\<lambda>d. length (markets d)) (detectDiscrepancies noNews exampleMarkets) = [2, 2]"
  by code_simp

text \<open>
  Claim C8. For every list of normalized markets whose \<open>yesProbability\<close> values all lie in
  \<open>[0, 1]\<close>, every discrepancy result returned by \<open>detectDiscrepancies\<close> has
  \<open>maxSpread \<ge> 0.03\<close> and \<open>maxSpread\<close> in \<open>[0, 1]\<close> and comes from a group of at least 2 of
  the input markets, and the returned sequence is sorted descending by \<open>maxSpread\<close>.
\<close>

theorem discrepancies_spread_sorted:
  assumes "\<forall>m \<in> set ms. 0 \<le> yesProbability m \<and> yesProbability m \<le> 1"
  shows "(\<forall>d \<in> set (detectDiscrepancies searchNews ms).
            3/100 \<le> maxSpread d \<and> 0 \<le> maxSpread d \<and> maxSpread d \<le> 1
          \<and> 2 \<le> length (markets d)
          \<and> (\<exists>g \<in> set (groupSimilarMarkets ms).
                2 \<le> length (mg_markets g) \<and> set (mg_markets g) \<subseteq> set ms
              \<and> eventSlug d = mg_eventSlug g
              \<and> map mq_yesProbability (markets d) = map yesProbability (mg_markets g)))
       \<and> sorted_wrt (\<lambda>a b. maxSpread b \<le> maxSpread a) (detectDiscrepancies searchNews ms)"
proof (intro conjI ballI)
  show "sorted_wrt (\<lambda>a b. maxSpread b \<le> maxSpread a) (detectDiscrepancies searchNews ms)"
    by (rule detectDiscrepancies_sorted)
next
  fix d
  assume "d \<in> set (detectDiscrepancies searchNews ms)"
  then have "d \<in> set (collectDiscrepancies searchNews (groupSimilarMarkets ms))"
    by (simp add: detectDiscrepancies_def)
  then obtain g where g: "g \<in> set (groupSimilarMarkets ms)"
    and a: "analyzeGroup searchNews g = Some d"
    using collectDiscrepancies_sound by blast
  from groupSimilarMarkets_sound [OF g]
  have sub: "set (mg_markets g) \<subseteq> set ms" and len: "2 \<le> length (mg_markets g)" by simp_all
  from sub assms have "\<forall>m \<in> set (mg_markets g). 0 \<le> yesProbability m \<and> yesProbability m \<le> 1"
    by blast
  from analyzeGroup_sound [OF a this]
  have s: "3/100 \<le> maxSpread d" "maxSpread d \<le> 1" "eventSlug d = mg_eventSlug g"
    "map mq_yesProbability (markets d) = map yesProbability (mg_markets g)" by simp_all
  from s(4) have "length (markets d) = length (mg_markets g)"
    using length_map by metis
  with len have l2: "2 \<le> length (markets d)" by simp
  show "3/100 \<le> maxSpread d" by (rule s(1))
  show "0 \<le> maxSpread d" using s(1) by simp
  show "maxSpread d \<le> 1" by (rule s(2))
  show "2 \<le> length (markets d)" by (rule l2)
  show "\<exists>g \<in> set (groupSimilarMarkets ms).
                2 \<le> length (mg_markets g) \<and> set (mg_markets g) \<subseteq> set ms
              \<and> eventSlug d = mg_eventSlug g
              \<and> map mq_yesProbability (markets d) = map yesProbability (mg_markets g)"
    using g len sub s(3,4) by blast
qed

theorem discrepancies_spread_sorted_witness:
  "map maxSpread (detectDiscrepancies noNews exampleMarkets) = [1/10, 1/20]
   \<and> map (\<lambda>d. length (markets d)) (detectDiscrepancies noNews exampleMarkets) = [2, 2]
   \<and> sorted_wrt (\<lambda>a b. maxSpread b \<le> maxSpread a) (detectDiscrepancies noNews exampleMarkets)"
proof -
  have h: "\<forall>m \<in> set exampleMarkets. 0 \<le> yesProbability m \<and> yesProbability m \<le> 1"
    by (simp add: exampleMarkets_def quoted_def)
  from discrepancies_spread_sorted [OF h, of noNews]
  have "sorted_wrt (\<lambda>a b. maxSpread b \<le> maxSpread a) (detectDiscrepancies noNews exampleMarkets)"
    by blast
  with exampleMarkets_spreads exampleMarkets_sizes show ?thesis by simp
qed

end
